theory Spec2Isabelle
  imports Main
begin

section \<open>The reset-password component\<close>

text \<open>
  A shallow embedding of \<^verbatim>\<open>ResetPasswordComponent\<close>
  (\<^verbatim>\<open>reset-password.component.ts\<close>). The component is an object with mutable
  fields whose methods run to completion one at a time on the JavaScript event loop.
  Each method becomes a function from the state before the call to the state after it.
  A method that subscribes to a remote call is split into the part that runs at once
  (the trigger) and the two callbacks \<^verbatim>\<open>next\<close> and \<^verbatim>\<open>error\<close>, which the
  event loop runs later, as events of their own.

  What the component does to its collaborators (the remote service, the snack bar and
  the router) is appended to a log kept in the state, so that "no remote call is made"
  is a statement about that log.
\<close>

subsection \<open>Collaborators\<close>

text \<open>
  The three operations of \<^verbatim>\<open>ResetPasswordService\<close>, with the arguments the
  component passes.
\<close>

datatype remote_call =
    CallSendOtp string
  | CallVerifyOtp string string
  | CallResetPassword string string string

datatype call_kind = KSendOtp | KVerifyOtp | KResetPassword

fun kind_of :: "remote_call \<Rightarrow> call_kind" where
  "kind_of (CallSendOtp _) = KSendOtp"
| "kind_of (CallVerifyOtp _ _) = KVerifyOtp"
| "kind_of (CallResetPassword _ _ _) = KResetPassword"

text \<open>
  \<open>SnackBarOpen message action duration\<close> is \<^verbatim>\<open>snackBar.open(message, action, {duration})\<close>
  and \<open>Navigate commands\<close> is \<^verbatim>\<open>router.navigate(commands)\<close>.
\<close>

datatype effect =
    Remote remote_call
  | SnackBarOpen string string int
  | Navigate "string list"

text \<open>
  The validators imported from \<^verbatim>\<open>service/utility/validator\<close> are not part of the
  source at hand; they are parameters of the model. Each one answers whether the value
  passes (\<open>True\<close>: the validator reports no error). \<open>matchPasswordValidator\<close> is given
  the value of the \<^verbatim>\<open>password\<close> control and the value of the control it guards.
\<close>

record validators =
  emailValidator :: "string \<Rightarrow> bool"
  passwordValidator :: "string \<Rightarrow> bool"
  matchPasswordValidator :: "string \<Rightarrow> string \<Rightarrow> bool"

subsection \<open>The state\<close>

text \<open>
  The fields of the class, under their names. The three form groups are represented by
  the values of their controls (\<open>email\<close>, \<open>otp\<close>, \<open>password\<close>, \<open>confirmPassword\<close>)
  and by \<open>confirmPasswordInvalid\<close>, the status that the form library keeps for the
  \<^verbatim>\<open>confirmPassword\<close> control: whether the last run of its validators reported an
  error.
  \<open>otpSubscription\<close> is \<open>None\<close> for \<^verbatim>\<open>null\<close> and \<open>Some k\<close> for the subscription
  object number \<open>k\<close>.

  Four more fields stand for the world around the component: \<open>live\<close> is the set of
  \<^verbatim>\<open>interval(1000)\<close> subscriptions that have not been unsubscribed, \<open>nextSub\<close>
  numbers the next subscription object, \<open>inflight\<close> lists the remote calls that have
  not completed, and \<open>effects\<close> is the log of calls to the collaborators.
\<close>

record component =
  email :: string
  otp :: string
  password :: string
  confirmPassword :: string
  confirmPasswordInvalid :: bool
  isOtpSent :: bool
  isOtpVerified :: bool
  otpTimer :: int
  remainingTime :: int
  resendOtpDisabled :: bool
  otpSubscription :: "nat option"
  passwordVisible :: bool
  confirmPasswordVisible :: bool
  isLoadingOtp :: bool
  live :: "nat set"
  nextSub :: nat
  inflight :: "remote_call list"
  effects :: "effect list"

text \<open>
  The field initialisers and the constructor: every form control starts empty, and the
  empty \<^verbatim>\<open>confirmPassword\<close> control fails \<^verbatim>\<open>Validators.required\<close>.
\<close>

definition init :: component where
  "init = \<lparr> email = [], otp = [], password = [], confirmPassword = [],
            confirmPasswordInvalid = True,
            isOtpSent = False, isOtpVerified = False,
            otpTimer = 60, remainingTime = 60,
            resendOtpDisabled = False, otpSubscription = None,
            passwordVisible = False, confirmPasswordVisible = False,
            isLoadingOtp = False,
            live = {}, nextSub = 0, inflight = [], effects = [] \<rparr>"

subsection \<open>Form validity\<close>

text \<open>
  \<^verbatim>\<open>form.invalid\<close> reads the status the form library has stored: the form is
  invalid when one of its controls is, and the status of a control is the outcome of the
  last run of the validators it was built with. They are run when the control is built
  and whenever its own value is set, not when the value of another control is set.
  \<^verbatim>\<open>Validators.required\<close> fails on the empty string and
  \<^verbatim>\<open>Validators.minLength(n)\<close> on a non-empty string shorter than \<open>n\<close>.

  The validators of \<^verbatim>\<open>email\<close>, \<^verbatim>\<open>otp\<close> and \<^verbatim>\<open>password\<close> read the value of
  their own control only, so the stored status of these controls is that of their current
  value. \<^verbatim>\<open>matchPasswordValidator('password')\<close> sits on \<^verbatim>\<open>confirmPassword\<close>
  and reads the \<^verbatim>\<open>password\<close> control too: its outcome is stored in
  \<open>confirmPasswordInvalid\<close> when \<^verbatim>\<open>confirmPassword\<close> is set and is not renewed
  when \<^verbatim>\<open>password\<close> is set.
\<close>

definition emailForm_invalid :: "validators \<Rightarrow> component \<Rightarrow> bool" where
  "emailForm_invalid V s = (email s = [] \<or> \<not> emailValidator V (email s))"

definition otpForm_invalid :: "component \<Rightarrow> bool" where
  "otpForm_invalid s = (otp s = [] \<or> length (otp s) < 6)"

definition resetPasswordForm_invalid :: "validators \<Rightarrow> component \<Rightarrow> bool" where
  "resetPasswordForm_invalid V s =
     (password s = [] \<or> length (password s) < 8 \<or> \<not> passwordValidator V (password s)
      \<or> confirmPasswordInvalid s)"

text \<open>
  Setting the value of \<^verbatim>\<open>confirmPassword\<close> runs its two validators,
  \<^verbatim>\<open>Validators.required\<close> and \<^verbatim>\<open>matchPasswordValidator('password')\<close>, against
  the value the \<^verbatim>\<open>password\<close> control has at that moment, and stores the outcome.
\<close>

definition setConfirmPassword :: "validators \<Rightarrow> string \<Rightarrow> component \<Rightarrow> component" where
  "setConfirmPassword V v s =
     s\<lparr> confirmPassword := v,
        confirmPasswordInvalid := (v = [] \<or> \<not> matchPasswordValidator V (password s) v) \<rparr>"

subsection \<open>Calls to the collaborators\<close>

definition remote :: "remote_call \<Rightarrow> component \<Rightarrow> component" where
  "remote c s = s\<lparr> inflight := inflight s @ [c], effects := effects s @ [Remote c] \<rparr>"

definition snackBar_open :: "string \<Rightarrow> component \<Rightarrow> component" where
  "snackBar_open msg s = s\<lparr> effects := effects s @ [SnackBarOpen msg ''Close'' 3000] \<rparr>"

definition router_navigate :: "string list \<Rightarrow> component \<Rightarrow> component" where
  "router_navigate cmds s = s\<lparr> effects := effects s @ [Navigate cmds] \<rparr>"

subsection \<open>The countdown\<close>

text \<open>
  \<^verbatim>\<open>stopOtpTimer\<close>: when a subscription is held it is unsubscribed and the field is
  set to \<^verbatim>\<open>null\<close>; otherwise nothing happens.
\<close>

definition stopOtpTimer :: "component \<Rightarrow> component" where
  "stopOtpTimer s =
     (case otpSubscription s of
        None \<Rightarrow> s
      | Some k \<Rightarrow> s\<lparr> otpSubscription := None, live := live s - {k} \<rparr>)"

text \<open>
  \<^verbatim>\<open>startOtpTimer\<close>: stop, reset \<open>remainingTime\<close>, subscribe to a new interval and
  keep its subscription.
\<close>

definition startOtpTimer :: "component \<Rightarrow> component" where
  "startOtpTimer s =
     (let s1 = stopOtpTimer s;
          s2 = s1\<lparr> remainingTime := otpTimer s1 \<rparr>
      in s2\<lparr> otpSubscription := Some (nextSub s2),
              live := insert (nextSub s2) (live s2),
              nextSub := Suc (nextSub s2) \<rparr>)"

text \<open>The callback given to \<^verbatim>\<open>interval(1000).subscribe\<close> in \<^verbatim>\<open>startOtpTimer\<close>.\<close>

definition otpTick :: "component \<Rightarrow> component" where
  "otpTick s =
     (if remainingTime s > 0 then s\<lparr> remainingTime := remainingTime s - 1 \<rparr>
      else (stopOtpTimer s)\<lparr> resendOtpDisabled := False \<rparr>)"

subsection \<open>The methods\<close>

definition sendOtp :: "validators \<Rightarrow> component \<Rightarrow> component" where
  "sendOtp V s =
     (if emailForm_invalid V s then s
      else remote (CallSendOtp (email s)) (s\<lparr> isLoadingOtp := True \<rparr>))"

definition sendOtp_next :: "string \<Rightarrow> component \<Rightarrow> component" where
  "sendOtp_next response_data s =
     snackBar_open response_data
       (startOtpTimer
          (s\<lparr> isOtpSent := True, isLoadingOtp := False, resendOtpDisabled := True \<rparr>))"

definition sendOtp_error :: "string \<Rightarrow> component \<Rightarrow> component" where
  "sendOtp_error err s =
     snackBar_open ''Error sending OTP. Please try again.'' (s\<lparr> isLoadingOtp := False \<rparr>)"

definition verifyOtp :: "component \<Rightarrow> component" where
  "verifyOtp s = remote (CallVerifyOtp (email s) (otp s)) s"

definition verifyOtp_next :: "string \<Rightarrow> component \<Rightarrow> component" where
  "verifyOtp_next response_data s =
     snackBar_open response_data (stopOtpTimer (s\<lparr> isOtpVerified := True \<rparr>))"

definition verifyOtp_error :: "string \<Rightarrow> component \<Rightarrow> component" where
  "verifyOtp_error err s = snackBar_open ''Invalid OTP. Please try again.'' s"

definition resetPassword :: "validators \<Rightarrow> component \<Rightarrow> component" where
  "resetPassword V s =
     (if resetPasswordForm_invalid V s then s
      else remote (CallResetPassword (email s) (password s) (confirmPassword s)) s)"

definition resetPassword_next :: "string \<Rightarrow> component \<Rightarrow> component" where
  "resetPassword_next response_data s =
     router_navigate [''/login''] (snackBar_open response_data s)"

definition resetPassword_error :: "string \<Rightarrow> component \<Rightarrow> component" where
  "resetPassword_error err s =
     snackBar_open ''Error resetting password. Please try again.'' s"

definition handleBackNavigation :: "component \<Rightarrow> component" where
  "handleBackNavigation s =
     (if isOtpVerified s then s\<lparr> isOtpVerified := False, isOtpSent := True \<rparr>
      else if isOtpSent s then s\<lparr> isOtpSent := False \<rparr>
      else router_navigate [''/login''] s)"

definition togglePasswordVisibility :: "component \<Rightarrow> component" where
  "togglePasswordVisibility s = s\<lparr> passwordVisible := \<not> passwordVisible s \<rparr>"

definition toggleConfirmPasswordVisibility :: "component \<Rightarrow> component" where
  "toggleConfirmPasswordVisibility s =
     s\<lparr> confirmPasswordVisible := \<not> confirmPasswordVisible s \<rparr>"

definition ngOnDestroy :: "component \<Rightarrow> component" where
  "ngOnDestroy s = stopOtpTimer s"

subsection \<open>The event loop\<close>

text \<open>
  What can happen to a component: the user edits a control or calls a method, an interval
  subscription fires, a remote call completes, or the component is torn down. The
  completion events carry what the service delivers: \<^verbatim>\<open>response.data\<close> for
  \<^verbatim>\<open>next\<close>, the error for \<^verbatim>\<open>error\<close>.
\<close>

datatype event =
    SetEmail string
  | SetOtp string
  | SetPassword string
  | SetConfirmPassword string
  | SendOtp
  | SendOtpNext string
  | SendOtpError string
  | VerifyOtp
  | VerifyOtpNext string
  | VerifyOtpError string
  | ResetPassword
  | ResetPasswordNext string
  | ResetPasswordError string
  | HandleBackNavigation
  | TogglePasswordVisibility
  | ToggleConfirmPasswordVisibility
  | Tick nat
  | NgOnDestroy

text \<open>
  An interval delivers to its callback only while its subscription is live: after
  \<^verbatim>\<open>unsubscribe()\<close> the callback is not run again.
\<close>

definition deliver_tick :: "nat \<Rightarrow> component \<Rightarrow> component" where
  "deliver_tick k s = (if k \<in> live s then otpTick s else s)"

text \<open>
  A remote call completes once: the callback runs only when a call of its kind is in
  flight, and the oldest such call is then no longer in flight.
\<close>

fun drop_first :: "call_kind \<Rightarrow> remote_call list \<Rightarrow> remote_call list" where
  "drop_first k [] = []"
| "drop_first k (c # cs) = (if kind_of c = k then cs else c # drop_first k cs)"

definition complete :: "call_kind \<Rightarrow> (component \<Rightarrow> component) \<Rightarrow> component \<Rightarrow> component" where
  "complete k callback s =
     (if k \<in> set (map kind_of (inflight s))
      then callback (s\<lparr> inflight := drop_first k (inflight s) \<rparr>)
      else s)"

fun step :: "validators \<Rightarrow> event \<Rightarrow> component \<Rightarrow> component" where
  "step V (SetEmail v) s = s\<lparr> email := v \<rparr>"
| "step V (SetOtp v) s = s\<lparr> otp := v \<rparr>"
| "step V (SetPassword v) s = s\<lparr> password := v \<rparr>"
| "step V (SetConfirmPassword v) s = setConfirmPassword V v s"
| "step V SendOtp s = sendOtp V s"
| "step V (SendOtpNext d) s = complete KSendOtp (sendOtp_next d) s"
| "step V (SendOtpError e) s = complete KSendOtp (sendOtp_error e) s"
| "step V VerifyOtp s = verifyOtp s"
| "step V (VerifyOtpNext d) s = complete KVerifyOtp (verifyOtp_next d) s"
| "step V (VerifyOtpError e) s = complete KVerifyOtp (verifyOtp_error e) s"
| "step V ResetPassword s = resetPassword V s"
| "step V (ResetPasswordNext d) s = complete KResetPassword (resetPassword_next d) s"
| "step V (ResetPasswordError e) s = complete KResetPassword (resetPassword_error e) s"
| "step V HandleBackNavigation s = handleBackNavigation s"
| "step V TogglePasswordVisibility s = togglePasswordVisibility s"
| "step V ToggleConfirmPasswordVisibility s = toggleConfirmPasswordVisibility s"
| "step V (Tick k) s = deliver_tick k s"
| "step V NgOnDestroy s = ngOnDestroy s"

text \<open>The state after a sequence of events, each run to completion before the next.\<close>

fun run :: "validators \<Rightarrow> event list \<Rightarrow> component \<Rightarrow> component" where
  "run V [] s = s"
| "run V (e # es) s = run V es (step V e s)"

subsection \<open>The workflow step\<close>

text \<open>
  The component keeps the step of the workflow in the two flags \<open>isOtpVerified\<close> and
  \<open>isOtpSent\<close>; \<^verbatim>\<open>handleBackNavigation\<close> reads them in this order.
\<close>

datatype WorkflowStep = EnteringEmail | AwaitingOtp | OtpVerified

definition currentStep :: "component \<Rightarrow> WorkflowStep" where
  "currentStep s =
     (if isOtpVerified s then OtpVerified
      else if isOtpSent s then AwaitingOtp
      else EnteringEmail)"

text \<open>
  What a presentation layer observes of the workflow: the step, the remaining seconds,
  the resend flag and the values of the fields.
\<close>

definition observable ::
  "component \<Rightarrow> WorkflowStep \<times> bool \<times> bool \<times> int \<times> bool \<times> string \<times> string \<times> string \<times> string" where
  "observable s =
     (currentStep s, isOtpSent s, isOtpVerified s, remainingTime s, resendOtpDisabled s,
      email s, otp s, password s, confirmPassword s)"

subsection \<open>Sample data\<close>

text \<open>
  An instance of the validators, used where a statement is evaluated on concrete input:
  an email passes when it contains \<open>@\<close>, every password passes the strength check, and
  the confirmation passes when it equals the password.
\<close>

definition sampleValidators :: validators where
  "sampleValidators =
     \<lparr> emailValidator = (\<lambda>e. CHR ''@'' \<in> set e),
       passwordValidator = (\<lambda>p. True),
       matchPasswordValidator = (\<lambda>p c. p = c) \<rparr>"

text \<open>The events up to a delivered OTP, and up to a verified one.\<close>

definition toAwaitingOtp :: "event list" where
  "toAwaitingOtp = [SetEmail ''user@example.com'', SendOtp, SendOtpNext ''OTP sent'']"

definition toOtpVerified :: "event list" where
  "toOtpVerified =
     toAwaitingOtp @ [SetOtp ''123456'', VerifyOtp, VerifyOtpNext ''OTP verified'']"

text \<open>
  The user reaches the password form, fills it in and goes back one step: the workflow
  is at the OTP step again and the password form still holds the two values.
\<close>

definition toAwaitingOtpWithPasswords :: "event list" where
  "toAwaitingOtpWithPasswords =
     toOtpVerified
       @ [SetPassword ''Abc12345!'', SetConfirmPassword ''Abc12345!'', HandleBackNavigation]"



subsection \<open>Predicates on states\<close>

text \<open>
  The state of the countdown in a well-formed component: the live subscriptions are
  exactly the one the component holds, if it holds one; a held subscription has been
  numbered; resend is disabled while one is held; the duration is 60 and the remaining
  time lies between 0 and 60.
\<close>

definition timer_inv :: "component \<Rightarrow> bool" where
  "timer_inv s =
     ((case otpSubscription s of
         None \<Rightarrow> live s = {}
       | Some k \<Rightarrow> live s = {k} \<and> k < nextSub s \<and> resendOtpDisabled s)
      \<and> otpTimer s = 60 \<and> 0 \<le> remainingTime s \<and> remainingTime s \<le> 60)"

text \<open>Subscription \<open>k\<close> has been created and has been unsubscribed.\<close>

definition stopped :: "nat \<Rightarrow> component \<Rightarrow> bool" where
  "stopped k s = (k < nextSub s \<and> k \<notin> live s)"

section \<open>Properties\<close>

subsection \<open>Unfolding and evaluation\<close>

lemmas collaborator_defs = remote_def snackBar_open_def router_navigate_def

lemmas timer_defs = stopOtpTimer_def startOtpTimer_def otpTick_def deliver_tick_def

lemmas method_defs =
  sendOtp_def sendOtp_next_def sendOtp_error_def
  verifyOtp_def verifyOtp_next_def verifyOtp_error_def
  resetPassword_def resetPassword_next_def resetPassword_error_def
  handleBackNavigation_def togglePasswordVisibility_def
  toggleConfirmPasswordVisibility_def ngOnDestroy_def complete_def
  setConfirmPassword_def

lemmas sample_defs =
  sampleValidators_def toAwaitingOtp_def toOtpVerified_def init_def
  emailForm_invalid_def otpForm_invalid_def resetPasswordForm_invalid_def

lemma run_append: "run V (es @ es') s = run V es' (run V es s)"
  by (induction es arbitrary: s) simp_all

lemma run_toAwaitingOtp:
  "run sampleValidators toAwaitingOtp init =
     \<lparr> email = ''user@example.com'', otp = [], password = [], confirmPassword = [],
       confirmPasswordInvalid = True,
       isOtpSent = True, isOtpVerified = False, otpTimer = 60, remainingTime = 60,
       resendOtpDisabled = True, otpSubscription = Some 0, passwordVisible = False,
       confirmPasswordVisible = False, isLoadingOtp = False, live = {0}, nextSub = 1,
       inflight = [],
       effects = [Remote (CallSendOtp ''user@example.com''),
                  SnackBarOpen ''OTP sent'' ''Close'' 3000] \<rparr>"
  by (simp add: sample_defs method_defs timer_defs collaborator_defs Let_def)

lemma run_toOtpVerified:
  "run sampleValidators toOtpVerified init =
     \<lparr> email = ''user@example.com'', otp = ''123456'', password = [], confirmPassword = [],
       confirmPasswordInvalid = True,
       isOtpSent = True, isOtpVerified = True, otpTimer = 60, remainingTime = 60,
       resendOtpDisabled = True, otpSubscription = None, passwordVisible = False,
       confirmPasswordVisible = False, isLoadingOtp = False, live = {}, nextSub = 1,
       inflight = [],
       effects = [Remote (CallSendOtp ''user@example.com''),
                  SnackBarOpen ''OTP sent'' ''Close'' 3000,
                  Remote (CallVerifyOtp ''user@example.com'' ''123456''),
                  SnackBarOpen ''OTP verified'' ''Close'' 3000] \<rparr>"
  unfolding toOtpVerified_def run_append run_toAwaitingOtp
  by (simp add: method_defs timer_defs collaborator_defs)

lemma sampleValidators_simps:
  "emailValidator sampleValidators e = (CHR ''@'' \<in> set e)"
  "passwordValidator sampleValidators p = True"
  "matchPasswordValidator sampleValidators p c = (p = c)"
  by (simp_all add: sampleValidators_def)

lemma run_toAwaitingOtpWithPasswords:
  "run sampleValidators toAwaitingOtpWithPasswords init
     = (run sampleValidators toOtpVerified init)
         \<lparr> password := ''Abc12345!'', confirmPassword := ''Abc12345!'',
           confirmPasswordInvalid := False, isOtpVerified := False \<rparr>"
  unfolding toAwaitingOtpWithPasswords_def run_append
  by (simp add: run_toOtpVerified handleBackNavigation_def setConfirmPassword_def
        sampleValidators_simps)



text \<open>While the countdown has time left, \<open>n\<close> ticks take \<open>n\<close> seconds off it.\<close>

lemma run_ticks:
  "otpSubscription s = Some k \<Longrightarrow> k \<in> live s \<Longrightarrow> int n \<le> remainingTime s \<Longrightarrow>
   run V (replicate n (Tick k)) s = s\<lparr> remainingTime := remainingTime s - int n \<rparr>"
proof (induction n arbitrary: s)
  case 0
  then show ?case by simp
next
  case (Suc n)
  let ?s1 = "s\<lparr> remainingTime := remainingTime s - 1 \<rparr>"
  from Suc.prems have st: "step V (Tick k) s = ?s1"
    by (simp add: deliver_tick_def otpTick_def)
  from Suc.prems have "run V (replicate n (Tick k)) ?s1
      = ?s1\<lparr> remainingTime := remainingTime ?s1 - int n \<rparr>"
    by (intro Suc.IH) simp_all
  with st show ?case by simp
qed

text \<open>Sixty ticks after an OTP was sent the countdown shows 0 and is still running.\<close>

lemma run_countdown_to_zero:
  "run sampleValidators (toAwaitingOtp @ replicate 60 (Tick 0)) init
     = (run sampleValidators toAwaitingOtp init)\<lparr> remainingTime := 0 \<rparr>"
proof -
  let ?a = "run sampleValidators toAwaitingOtp init"
  have "run sampleValidators (replicate 60 (Tick 0)) ?a
          = ?a\<lparr> remainingTime := remainingTime ?a - int 60 \<rparr>"
    by (rule run_ticks) (simp_all add: run_toAwaitingOtp)
  then show ?thesis
    by (simp add: run_append) (simp add: run_toAwaitingOtp)
qed

subsection \<open>Invariants of the event loop\<close>

lemma timer_inv_init: "timer_inv init"
  by (simp add: timer_inv_def init_def)

lemma timer_inv_step: "timer_inv s \<Longrightarrow> timer_inv (step V e s)"
  by (cases e)
     (auto simp: timer_inv_def method_defs timer_defs collaborator_defs Let_def
           split: option.splits if_splits)

lemma timer_inv_run: "timer_inv s \<Longrightarrow> timer_inv (run V es s)"
  by (induction es arbitrary: s) (simp_all add: timer_inv_step)

lemma stopped_step: "stopped k s \<Longrightarrow> stopped k (step V e s)"
  by (cases e)
     (auto simp: stopped_def method_defs timer_defs collaborator_defs Let_def
           split: option.splits if_splits)

lemma stopped_run: "stopped k s \<Longrightarrow> stopped k (run V es s)"
  by (induction es arbitrary: s) (simp_all add: stopped_step)

lemma resend_enabled_by_step:
  assumes "timer_inv s" "resendOtpDisabled s" "\<not> resendOtpDisabled (step V e s)"
  shows "(\<exists>k. e = Tick k \<and> otpSubscription s = Some k) \<and> remainingTime s = 0
         \<and> otpSubscription (step V e s) = None"
  using assms
  by (cases e)
     (auto simp: timer_inv_def method_defs timer_defs collaborator_defs Let_def
           split: option.splits if_splits)

subsection \<open>Verifying the OTP\<close>

text \<open>
  C1. The claim: if \<^verbatim>\<open>verifyOtp()\<close> is triggered while the OTP field is absent or
  shorter than 6 characters, no remote \<^verbatim>\<open>verifyCode\<close> call is made and nothing
  changes. \<^verbatim>\<open>verifyOtp\<close> does not look at the OTP form, unlike \<^verbatim>\<open>sendOtp\<close> and
  \<^verbatim>\<open>resetPassword\<close>, which return at once on an invalid form. With an OTP sent and the
  three-character code \<open>123\<close> in the field, the OTP form is invalid and
  \<^verbatim>\<open>verifyOtp()\<close> still calls the remote service with that code.
\<close>

theorem verifyOtp_short_otp_calls_remote:
  "otpForm_invalid (run sampleValidators (toAwaitingOtp @ [SetOtp ''123'']) init)
   \<and> effects (run sampleValidators (toAwaitingOtp @ [SetOtp ''123'', VerifyOtp]) init)
       = effects (run sampleValidators (toAwaitingOtp @ [SetOtp ''123'']) init)
           @ [Remote (CallVerifyOtp ''user@example.com'' ''123'')]"
  by (simp add: run_append run_toAwaitingOtp otpForm_invalid_def verifyOtp_def remote_def)

subsection \<open>The resend flag and the countdown\<close>

text \<open>
  C2. The claim: in every reachable state \<open>resendOtpDisabled\<close> holds if and only if the
  countdown is active, and it becomes false exactly when the remaining time reaches 0.
  It fails in two places. After a successful verification the countdown is stopped and
  \<open>resendOtpDisabled\<close> is still true. And sixty ticks after an OTP was sent the remaining
  time is 0 while \<open>resendOtpDisabled\<close> is still true.
\<close>

theorem resend_disabled_iff_active_counterexample:
  "resendOtpDisabled (run sampleValidators toOtpVerified init)
   \<and> otpSubscription (run sampleValidators toOtpVerified init) = None
   \<and> live (run sampleValidators toOtpVerified init) = {}
   \<and> remainingTime (run sampleValidators (toAwaitingOtp @ replicate 60 (Tick 0)) init) = 0
   \<and> resendOtpDisabled (run sampleValidators (toAwaitingOtp @ replicate 60 (Tick 0)) init)"
  by (simp add: run_toOtpVerified run_countdown_to_zero) (simp add: run_toAwaitingOtp)

text \<open>
  C2, as the code has it. In every state reached from the initial one, an active
  countdown implies that \<open>resendOtpDisabled\<close> is true. The only event that takes
  \<open>resendOtpDisabled\<close> from true to false is a tick of the held subscription that finds
  the remaining time already at 0, and that tick stops the countdown. A tick that finds
  time left only takes one second off, also when that brings the remaining time to 0.
\<close>

theorem resend_disabled_while_timer_active:
  "(otpSubscription (run V es init) \<noteq> None \<longrightarrow> resendOtpDisabled (run V es init))
   \<and> (resendOtpDisabled (run V es init) \<and> \<not> resendOtpDisabled (step V e (run V es init))
        \<longrightarrow> (\<exists>k. e = Tick k \<and> otpSubscription (run V es init) = Some k)
            \<and> remainingTime (run V es init) = 0
            \<and> otpSubscription (step V e (run V es init)) = None)
   \<and> (k \<in> live s \<and> 0 < remainingTime s
        \<longrightarrow> step V (Tick k) s = s\<lparr> remainingTime := remainingTime s - 1 \<rparr>)
   \<and> (k \<in> live s' \<and> remainingTime s' = 0
        \<longrightarrow> step V (Tick k) s' = (stopOtpTimer s')\<lparr> resendOtpDisabled := False \<rparr>)"
proof -
  have inv: "timer_inv (run V es init)"
    by (rule timer_inv_run [OF timer_inv_init])
  then have a: "otpSubscription (run V es init) \<noteq> None \<longrightarrow> resendOtpDisabled (run V es init)"
    by (auto simp: timer_inv_def split: option.splits)
  have b: "resendOtpDisabled (run V es init) \<and> \<not> resendOtpDisabled (step V e (run V es init))
        \<longrightarrow> (\<exists>k. e = Tick k \<and> otpSubscription (run V es init) = Some k)
            \<and> remainingTime (run V es init) = 0
            \<and> otpSubscription (step V e (run V es init)) = None"
    using resend_enabled_by_step [OF inv] by blast
  have c: "k \<in> live s \<and> 0 < remainingTime s
        \<longrightarrow> step V (Tick k) s = s\<lparr> remainingTime := remainingTime s - 1 \<rparr>"
    by (simp add: deliver_tick_def otpTick_def)
  have d: "k \<in> live s' \<and> remainingTime s' = 0
        \<longrightarrow> step V (Tick k) s' = (stopOtpTimer s')\<lparr> resendOtpDisabled := False \<rparr>"
    by (simp add: deliver_tick_def otpTick_def)
  from a b c d show ?thesis by blast
qed

theorem resend_disabled_while_timer_active_witness:
  "otpSubscription (run sampleValidators (toAwaitingOtp @ replicate 60 (Tick 0)) init) \<noteq> None
   \<and> resendOtpDisabled (run sampleValidators (toAwaitingOtp @ replicate 60 (Tick 0)) init)
   \<and> \<not> resendOtpDisabled
         (step sampleValidators (Tick 0)
            (run sampleValidators (toAwaitingOtp @ replicate 60 (Tick 0)) init))
   \<and> remainingTime (run sampleValidators (toAwaitingOtp @ replicate 60 (Tick 0)) init) = 0
   \<and> 0 \<in> live (run sampleValidators (toAwaitingOtp @ replicate 60 (Tick 0)) init)
   \<and> otpSubscription
         (step sampleValidators (Tick 0)
            (run sampleValidators (toAwaitingOtp @ replicate 60 (Tick 0)) init)) = None
   \<and> 0 \<in> live (run sampleValidators toAwaitingOtp init)
   \<and> 0 < remainingTime (run sampleValidators toAwaitingOtp init)
   \<and> remainingTime (step sampleValidators (Tick 0) (run sampleValidators toAwaitingOtp init)) = 59
   \<and> resendOtpDisabled (step sampleValidators (Tick 0) (run sampleValidators toAwaitingOtp init))"
  using resend_disabled_while_timer_active
    [of sampleValidators "toAwaitingOtp @ replicate 60 (Tick 0)" "Tick 0" 0
        "run sampleValidators toAwaitingOtp init"
        "run sampleValidators (toAwaitingOtp @ replicate 60 (Tick 0)) init"]
  by (simp add: run_countdown_to_zero stopOtpTimer_def) (simp add: run_toAwaitingOtp)

subsection \<open>Requesting the OTP\<close>

text \<open>
  C3. For every email that fails the email validator, \<^verbatim>\<open>sendOtp()\<close> returns the
  component as it was: no field changes, nothing is added to the calls in flight and
  nothing to the log of calls to the collaborators, so the remote service is not invoked.
\<close>

theorem sendOtp_invalid_email_noop:
  assumes "\<not> emailValidator V (email s)"
  shows "sendOtp V s = s \<and> step V SendOtp s = s"
  using assms by (simp add: sendOtp_def emailForm_invalid_def)

theorem sendOtp_invalid_email_noop_witness:
  "\<not> emailValidator sampleValidators (email (step sampleValidators (SetEmail ''user.example.com'') init))
   \<and> sendOtp sampleValidators (step sampleValidators (SetEmail ''user.example.com'') init)
       = step sampleValidators (SetEmail ''user.example.com'') init
   \<and> effects (run sampleValidators [SetEmail ''user.example.com'', SendOtp] init) = []"
proof -
  let ?s = "step sampleValidators (SetEmail ''user.example.com'') init"
  have h: "\<not> emailValidator sampleValidators (email ?s)"
    by (simp add: sampleValidators_simps)
  show ?thesis
    using h sendOtp_invalid_email_noop [OF h] by (simp add: init_def)
qed

text \<open>
  C4. The claim: \<^verbatim>\<open>resendOtp()\<close> while resend is disabled is a no-op that makes no
  remote call. Resending is \<^verbatim>\<open>sendOtp()\<close>, which does not read
  \<open>resendOtpDisabled\<close>: right after an OTP was sent, with resend disabled, it calls the
  remote service again and sets \<open>isLoadingOtp\<close>.
\<close>

theorem sendOtp_while_resend_disabled_counterexample:
  "resendOtpDisabled (run sampleValidators toAwaitingOtp init)
   \<and> effects (sendOtp sampleValidators (run sampleValidators toAwaitingOtp init))
       = effects (run sampleValidators toAwaitingOtp init)
           @ [Remote (CallSendOtp ''user@example.com'')]
   \<and> isLoadingOtp (sendOtp sampleValidators (run sampleValidators toAwaitingOtp init))
   \<and> \<not> isLoadingOtp (run sampleValidators toAwaitingOtp init)"
  by (simp add: run_toAwaitingOtp sendOtp_def emailForm_invalid_def remote_def
        sampleValidators_simps)

text \<open>
  C4, as the code has it. \<^verbatim>\<open>sendOtp()\<close> does the same whatever
  \<open>resendOtpDisabled\<close> is: with an invalid email form nothing happens, with a valid one
  it sets \<open>isLoadingOtp\<close> and calls the remote service with the email. When that call
  succeeds, \<open>isOtpSent\<close> and \<open>resendOtpDisabled\<close> are set and the countdown is
  restarted: the remaining time is the full duration and the only live subscription is
  the new one.
\<close>

theorem sendOtp_ignores_resend_flag:
  "sendOtp V (s\<lparr> resendOtpDisabled := b \<rparr>) = (sendOtp V s)\<lparr> resendOtpDisabled := b \<rparr>
   \<and> (emailForm_invalid V s \<longrightarrow> sendOtp V s = s)
   \<and> (\<not> emailForm_invalid V s \<longrightarrow>
        sendOtp V s = s\<lparr> isLoadingOtp := True,
                           inflight := inflight s @ [CallSendOtp (email s)],
                           effects := effects s @ [Remote (CallSendOtp (email s))] \<rparr>)
   \<and> isOtpSent (sendOtp_next d s)
   \<and> resendOtpDisabled (sendOtp_next d s)
   \<and> remainingTime (sendOtp_next d s) = otpTimer s
   \<and> otpSubscription (sendOtp_next d s) = Some (nextSub s)
   \<and> (timer_inv s \<longrightarrow> live (sendOtp_next d s) = {nextSub s})"
  by (auto simp: sendOtp_def sendOtp_next_def emailForm_invalid_def timer_inv_def
        timer_defs collaborator_defs Let_def split: option.splits)

theorem sendOtp_ignores_resend_flag_witness:
  "emailForm_invalid sampleValidators init
   \<and> sendOtp sampleValidators init = init
   \<and> \<not> emailForm_invalid sampleValidators (run sampleValidators toAwaitingOtp init)
   \<and> resendOtpDisabled (run sampleValidators toAwaitingOtp init)
   \<and> effects (sendOtp sampleValidators (run sampleValidators toAwaitingOtp init))
       = effects (run sampleValidators toAwaitingOtp init)
           @ [Remote (CallSendOtp ''user@example.com'')]
   \<and> timer_inv (run sampleValidators toAwaitingOtp init)
   \<and> live (sendOtp_next ''OTP sent again'' (run sampleValidators toAwaitingOtp init)) = {1}
   \<and> remainingTime (sendOtp_next ''OTP sent again'' (run sampleValidators toAwaitingOtp init)) = 60"
proof -
  have i: "emailForm_invalid sampleValidators init"
    by (simp add: emailForm_invalid_def init_def)
  have v: "\<not> emailForm_invalid sampleValidators (run sampleValidators toAwaitingOtp init)"
    by (simp add: emailForm_invalid_def run_toAwaitingOtp sampleValidators_simps)
  have t: "timer_inv (run sampleValidators toAwaitingOtp init)"
    by (simp add: timer_inv_def run_toAwaitingOtp)
  have n: "sendOtp sampleValidators init = init"
    using i sendOtp_ignores_resend_flag [where V = sampleValidators and s = init] by blast
  let ?a = "run sampleValidators toAwaitingOtp init"
  have c: "sendOtp sampleValidators ?a
             = ?a\<lparr> isLoadingOtp := True,
                   inflight := inflight ?a @ [CallSendOtp (email ?a)],
                   effects := effects ?a @ [Remote (CallSendOtp (email ?a))] \<rparr>"
    using v sendOtp_ignores_resend_flag [where V = sampleValidators and s = ?a] by blast
  have l: "live (sendOtp_next ''OTP sent again'' ?a) = {nextSub ?a}"
    using t sendOtp_ignores_resend_flag [where s = ?a and d = "''OTP sent again''"] by blast
  have r: "remainingTime (sendOtp_next ''OTP sent again'' ?a) = otpTimer ?a"
    using sendOtp_ignores_resend_flag [where s = ?a and d = "''OTP sent again''"] by blast
  from i v t n show ?thesis
    by (simp add: c l r) (simp add: run_toAwaitingOtp)
qed

subsection \<open>Resetting the password\<close>




subsection \<open>Going back\<close>

text \<open>
  C6. The claim: going back from a step other than the first while the countdown is
  active stops the countdown. \<^verbatim>\<open>handleBackNavigation\<close> does not touch the
  subscription: going back right after an OTP was sent leaves subscription 0 held and
  live, and its next tick takes the remaining time from 60 to 59.
\<close>

theorem goBack_keeps_timer_counterexample:
  "currentStep (run sampleValidators toAwaitingOtp init) = AwaitingOtp
   \<and> otpSubscription (run sampleValidators toAwaitingOtp init) = Some 0
   \<and> otpSubscription (handleBackNavigation (run sampleValidators toAwaitingOtp init)) = Some 0
   \<and> live (handleBackNavigation (run sampleValidators toAwaitingOtp init)) = {0}
   \<and> remainingTime
        (run sampleValidators (toAwaitingOtp @ [HandleBackNavigation, Tick 0]) init) = 59"
  by (simp add: run_append run_toAwaitingOtp currentStep_def handleBackNavigation_def
        deliver_tick_def otpTick_def)

text \<open>
  C6, as the code has it. Going back from a step other than the first while the
  countdown is active leaves the countdown as it is: the same subscription is held, the
  same subscriptions are live, and a tick after going back does what the tick would have
  done before.
\<close>

theorem handleBackNavigation_leaves_timer:
  assumes "currentStep s \<noteq> EnteringEmail" and "otpSubscription s = Some k" and "k \<in> live s"
  shows "otpSubscription (handleBackNavigation s) = Some k
       \<and> live (handleBackNavigation s) = live s
       \<and> deliver_tick k (handleBackNavigation s) = handleBackNavigation (otpTick s)"
  using assms
  by (simp add: currentStep_def handleBackNavigation_def deliver_tick_def otpTick_def
        stopOtpTimer_def split: if_splits)

theorem handleBackNavigation_leaves_timer_witness:
  "currentStep (run sampleValidators toAwaitingOtp init) \<noteq> EnteringEmail
   \<and> otpSubscription (run sampleValidators toAwaitingOtp init) = Some 0
   \<and> 0 \<in> live (run sampleValidators toAwaitingOtp init)
   \<and> otpSubscription (handleBackNavigation (run sampleValidators toAwaitingOtp init)) = Some 0
   \<and> live (handleBackNavigation (run sampleValidators toAwaitingOtp init)) = {0}
   \<and> remainingTime
        (deliver_tick 0 (handleBackNavigation (run sampleValidators toAwaitingOtp init))) = 59"
proof -
  let ?a = "run sampleValidators toAwaitingOtp init"
  have h1: "currentStep ?a \<noteq> EnteringEmail"
    by (simp add: run_toAwaitingOtp currentStep_def)
  have h2: "otpSubscription ?a = Some 0"
    by (simp add: run_toAwaitingOtp)
  have h3: "0 \<in> live ?a"
    by (simp add: run_toAwaitingOtp)
  have r: "remainingTime (handleBackNavigation (otpTick ?a)) = 59"
    by (simp add: run_toAwaitingOtp otpTick_def handleBackNavigation_def)
  have l: "live ?a = {0}"
    by (simp add: run_toAwaitingOtp)
  from h1 h2 h3 handleBackNavigation_leaves_timer [OF h1 h2 h3] show ?thesis
    by (simp add: r l)
qed

text \<open>
  C7. From the step \<open>OtpVerified\<close>, going back once gives the step \<open>AwaitingOtp\<close>,
  going back twice gives \<open>EnteringEmail\<close>, neither with a navigation, and going back a
  third time navigates to \<^verbatim>\<open>/login\<close>.
\<close>

theorem back_navigation_sequence:
  assumes "currentStep s = OtpVerified"
  shows "currentStep (handleBackNavigation s) = AwaitingOtp
       \<and> effects (handleBackNavigation s) = effects s
       \<and> currentStep (handleBackNavigation (handleBackNavigation s)) = EnteringEmail
       \<and> effects (handleBackNavigation (handleBackNavigation s)) = effects s
       \<and> effects (handleBackNavigation (handleBackNavigation (handleBackNavigation s)))
           = effects s @ [Navigate [''/login'']]"
  using assms
  by (simp add: currentStep_def handleBackNavigation_def router_navigate_def split: if_splits)

theorem back_navigation_sequence_witness:
  "currentStep (run sampleValidators toOtpVerified init) = OtpVerified
   \<and> currentStep (run sampleValidators (toOtpVerified @ [HandleBackNavigation]) init) = AwaitingOtp
   \<and> currentStep (run sampleValidators (toOtpVerified @ [HandleBackNavigation, HandleBackNavigation]) init)
       = EnteringEmail
   \<and> effects (run sampleValidators
        (toOtpVerified @ [HandleBackNavigation, HandleBackNavigation, HandleBackNavigation]) init)
       = effects (run sampleValidators toOtpVerified init) @ [Navigate [''/login'']]"
proof -
  have v: "currentStep (run sampleValidators toOtpVerified init) = OtpVerified"
    by (simp add: run_toOtpVerified currentStep_def)
  show ?thesis
    using v back_navigation_sequence [OF v] by (simp add: run_append)
qed

subsection \<open>Stopping and restarting the countdown\<close>

text \<open>
  C8. In every state reached from the initial one the live subscriptions are exactly
  the one the component holds, so at most one countdown is live. Whatever subscription
  is held there is stopped by \<^verbatim>\<open>stopOtpTimer\<close>, by \<^verbatim>\<open>startOtpTimer\<close> and by
  \<^verbatim>\<open>ngOnDestroy\<close>. A stopped subscription stays stopped through every later sequence
  of events, and a tick of it changes nothing. After \<^verbatim>\<open>stopOtpTimer\<close> no subscription
  is held, and stopping twice is stopping once. \<^verbatim>\<open>startOtpTimer\<close> sets the remaining
  time to the duration and holds a new subscription, which is then the only live one.
\<close>

theorem stopped_timer_never_ticks_again:
  "live (run V es init)
     = (case otpSubscription (run V es init) of None \<Rightarrow> {} | Some j \<Rightarrow> {j})
   \<and> (otpSubscription (run V es init) = Some k \<longrightarrow>
        stopped k (stopOtpTimer (run V es init))
        \<and> stopped k (startOtpTimer (run V es init))
        \<and> stopped k (ngOnDestroy (run V es init)))
   \<and> (stopped k s \<longrightarrow>
        stopped k (run V es' s) \<and> step V (Tick k) (run V es' s) = run V es' s)
   \<and> otpSubscription (stopOtpTimer s) = None
   \<and> stopOtpTimer (stopOtpTimer s) = stopOtpTimer s
   \<and> remainingTime (startOtpTimer s) = otpTimer s
   \<and> otpSubscription (startOtpTimer s) = Some (nextSub s)
   \<and> live (startOtpTimer (run V es init)) = {nextSub (run V es init)}"
proof -
  let ?t = "run V es init"
  have inv: "timer_inv ?t"
    by (rule timer_inv_run [OF timer_inv_init])
  then have a: "live ?t = (case otpSubscription ?t of None \<Rightarrow> {} | Some j \<Rightarrow> {j})"
    by (simp add: timer_inv_def split: option.splits)
  from inv have b: "otpSubscription ?t = Some k \<longrightarrow>
        stopped k (stopOtpTimer ?t) \<and> stopped k (startOtpTimer ?t) \<and> stopped k (ngOnDestroy ?t)"
    by (auto simp: timer_inv_def stopped_def ngOnDestroy_def stopOtpTimer_def
          startOtpTimer_def Let_def)
  have c: "stopped k s \<longrightarrow>
        stopped k (run V es' s) \<and> step V (Tick k) (run V es' s) = run V es' s"
  proof
    assume "stopped k s"
    then have st: "stopped k (run V es' s)" by (rule stopped_run)
    then have "k \<notin> live (run V es' s)" by (simp add: stopped_def)
    then have "step V (Tick k) (run V es' s) = run V es' s"
      by (simp add: deliver_tick_def)
    with st show "stopped k (run V es' s) \<and> step V (Tick k) (run V es' s) = run V es' s"
      by simp
  qed
  have d: "otpSubscription (stopOtpTimer s) = None"
    by (simp add: stopOtpTimer_def split: option.splits)
  have d': "stopOtpTimer (stopOtpTimer s) = stopOtpTimer s"
    by (simp add: stopOtpTimer_def split: option.splits)
  have e: "remainingTime (startOtpTimer s) = otpTimer s"
    by (simp add: startOtpTimer_def stopOtpTimer_def Let_def split: option.splits)
  have f: "otpSubscription (startOtpTimer s) = Some (nextSub s)"
    by (simp add: startOtpTimer_def stopOtpTimer_def Let_def split: option.splits)
  from inv have g: "live (startOtpTimer ?t) = {nextSub ?t}"
    by (auto simp: timer_inv_def startOtpTimer_def stopOtpTimer_def Let_def
          split: option.splits)
  from a b c d d' e f g show ?thesis by blast
qed

theorem stopped_timer_never_ticks_again_witness:
  "otpSubscription (run sampleValidators toAwaitingOtp init) = Some 0
   \<and> stopped 0 (stopOtpTimer (run sampleValidators toAwaitingOtp init))
   \<and> stopped 0 (startOtpTimer (run sampleValidators toAwaitingOtp init))
   \<and> stopped 0 (ngOnDestroy (run sampleValidators toAwaitingOtp init))
   \<and> step sampleValidators (Tick 0)
        (run sampleValidators [Tick 1, Tick 1]
           (startOtpTimer (run sampleValidators toAwaitingOtp init)))
       = run sampleValidators [Tick 1, Tick 1]
           (startOtpTimer (run sampleValidators toAwaitingOtp init))
   \<and> remainingTime
        (run sampleValidators [Tick 1, Tick 1]
           (startOtpTimer (run sampleValidators toAwaitingOtp init))) = 58
   \<and> live (startOtpTimer (run sampleValidators toAwaitingOtp init)) = {1}"
proof -
  let ?a = "run sampleValidators toAwaitingOtp init"
  note T = stopped_timer_never_ticks_again
    [where V = sampleValidators and es = toAwaitingOtp and k = 0
       and s = "startOtpTimer ?a" and es' = "[Tick 1, Tick 1]"]
  have h: "otpSubscription ?a = Some 0"
    by (simp add: run_toAwaitingOtp)
  have b: "stopped 0 (stopOtpTimer ?a) \<and> stopped 0 (startOtpTimer ?a)
             \<and> stopped 0 (ngOnDestroy ?a)"
    using h T by blast
  then have s: "stopped 0 (startOtpTimer ?a)" by simp
  have c: "step sampleValidators (Tick 0)
             (run sampleValidators [Tick 1, Tick 1] (startOtpTimer ?a))
           = run sampleValidators [Tick 1, Tick 1] (startOtpTimer ?a)"
    using s T by blast
  have l: "live (startOtpTimer ?a) = {nextSub ?a}"
    using T by blast
  have n: "nextSub ?a = 1"
    by (simp add: run_toAwaitingOtp)
  have r: "remainingTime (run sampleValidators [Tick 1, Tick 1] (startOtpTimer ?a)) = 58"
    by (simp add: run_toAwaitingOtp timer_defs Let_def)
  from h b c r l n show ?thesis by simp
qed

subsection \<open>Failed remote calls\<close>

text \<open>
  C9. The \<^verbatim>\<open>error\<close> callback of each of the three remote calls leaves the step, the
  remaining time, the resend flag and the field values as they are and opens the snack
  bar with a fixed message that does not depend on the error. Starting the call changes
  none of them either, so a call followed by its failure ends in the observable state
  from before the call, with the call and the message added to the log.
\<close>

theorem remote_failure_keeps_state:
  "observable (sendOtp_error err s) = observable s
   \<and> effects (sendOtp_error err s)
       = effects s @ [SnackBarOpen ''Error sending OTP. Please try again.'' ''Close'' 3000]
   \<and> observable (verifyOtp_error err s) = observable s
   \<and> effects (verifyOtp_error err s)
       = effects s @ [SnackBarOpen ''Invalid OTP. Please try again.'' ''Close'' 3000]
   \<and> observable (resetPassword_error err s) = observable s
   \<and> effects (resetPassword_error err s)
       = effects s @ [SnackBarOpen ''Error resetting password. Please try again.'' ''Close'' 3000]
   \<and> observable (run V [SendOtp, SendOtpError err] s) = observable s
   \<and> observable (run V [VerifyOtp, VerifyOtpError err] s) = observable s
   \<and> observable (run V [ResetPassword, ResetPasswordError err] s) = observable s
   \<and> (\<not> emailForm_invalid V s \<longrightarrow>
        effects (run V [SendOtp, SendOtpError err] s)
          = effects s @ [Remote (CallSendOtp (email s)),
              SnackBarOpen ''Error sending OTP. Please try again.'' ''Close'' 3000])
   \<and> effects (run V [VerifyOtp, VerifyOtpError err] s)
          = effects s @ [Remote (CallVerifyOtp (email s) (otp s)),
              SnackBarOpen ''Invalid OTP. Please try again.'' ''Close'' 3000]
   \<and> (\<not> resetPasswordForm_invalid V s \<longrightarrow>
        effects (run V [ResetPassword, ResetPasswordError err] s)
          = effects s @ [Remote (CallResetPassword (email s) (password s) (confirmPassword s)),
              SnackBarOpen ''Error resetting password. Please try again.'' ''Close'' 3000])"
  by (simp add: observable_def currentStep_def method_defs collaborator_defs)


theorem remote_failure_keeps_state_witness:
  "\<not> emailForm_invalid sampleValidators (run sampleValidators toAwaitingOtpWithPasswords init)
   \<and> \<not> resetPasswordForm_invalid sampleValidators
         (run sampleValidators toAwaitingOtpWithPasswords init)
   \<and> effects (run sampleValidators [SendOtp, SendOtpError ''503'']
         (run sampleValidators toAwaitingOtpWithPasswords init))
       = effects (run sampleValidators toAwaitingOtpWithPasswords init)
          @ [Remote (CallSendOtp ''user@example.com''),
             SnackBarOpen ''Error sending OTP. Please try again.'' ''Close'' 3000]
   \<and> effects (run sampleValidators [ResetPassword, ResetPasswordError ''503'']
         (run sampleValidators toAwaitingOtpWithPasswords init))
       = effects (run sampleValidators toAwaitingOtpWithPasswords init)
          @ [Remote (CallResetPassword ''user@example.com'' ''Abc12345!'' ''Abc12345!''),
             SnackBarOpen ''Error resetting password. Please try again.'' ''Close'' 3000]
   \<and> observable (run sampleValidators [SendOtp, SendOtpError ''503'']
         (run sampleValidators toAwaitingOtpWithPasswords init))
       = (AwaitingOtp, True, False, 60, True,
          ''user@example.com'', ''123456'', ''Abc12345!'', ''Abc12345!'')"
proof -
  let ?a = "run sampleValidators toAwaitingOtpWithPasswords init"
  note a = run_toAwaitingOtpWithPasswords run_toOtpVerified
  note T = remote_failure_keeps_state [where V = sampleValidators and s = ?a and err = "''503''"]
  have e: "\<not> emailForm_invalid sampleValidators ?a"
    by (simp add: emailForm_invalid_def a sampleValidators_simps)
  have p: "\<not> resetPasswordForm_invalid sampleValidators ?a"
    by (simp add: resetPasswordForm_invalid_def a sampleValidators_simps)
  have c1: "effects (run sampleValidators [SendOtp, SendOtpError ''503''] ?a)
          = effects ?a @ [Remote (CallSendOtp (email ?a)),
              SnackBarOpen ''Error sending OTP. Please try again.'' ''Close'' 3000]"
    using e T by blast
  have c2: "effects (run sampleValidators [ResetPassword, ResetPasswordError ''503''] ?a)
          = effects ?a @ [Remote (CallResetPassword (email ?a) (password ?a) (confirmPassword ?a)),
              SnackBarOpen ''Error resetting password. Please try again.'' ''Close'' 3000]"
    using p T by blast
  have c3: "observable (run sampleValidators [SendOtp, SendOtpError ''503''] ?a) = observable ?a"
    using T by blast
  have o: "observable ?a = (AwaitingOtp, True, False, 60, True,
          ''user@example.com'', ''123456'', ''Abc12345!'', ''Abc12345!'')"
    by (simp add: observable_def currentStep_def a)
  have f: "email ?a = ''user@example.com''" "password ?a = ''Abc12345!''"
      "confirmPassword ?a = ''Abc12345!''"
    by (simp_all add: a)
  from e p show ?thesis
    unfolding c1 c2 c3 o f by simp
qed

subsection \<open>What going back leaves alone\<close>

text \<open>
  C10. From every state, \<^verbatim>\<open>handleBackNavigation\<close> changes at most the two step
  flags (and may navigate): the email, the OTP, the password, the confirmation, the
  remaining time and the resend flag are as before.
\<close>

theorem handleBackNavigation_frame:
  "email (handleBackNavigation s) = email s
   \<and> otp (handleBackNavigation s) = otp s
   \<and> password (handleBackNavigation s) = password s
   \<and> confirmPassword (handleBackNavigation s) = confirmPassword s
   \<and> remainingTime (handleBackNavigation s) = remainingTime s
   \<and> resendOtpDisabled (handleBackNavigation s) = resendOtpDisabled s
   \<and> handleBackNavigation s
       = s\<lparr> isOtpSent := isOtpSent (handleBackNavigation s),
             isOtpVerified := isOtpVerified (handleBackNavigation s),
             effects := effects (handleBackNavigation s) \<rparr>"
  by (simp add: handleBackNavigation_def router_navigate_def)

end
